theory Spec2Isabelle
  imports Main "HOL-Library.Word" "HOL-Library.Sublist"
begin

section \<open>The prune command of chihuahuad (cmd/chihuahuad/prune.go)\<close>

text \<open>
  The command deletes old heights from two goleveldb stores under the node's data
  directory, \<^verbatim>\<open>blockstore.db\<close> and \<^verbatim>\<open>state.db\<close>, and compacts both. The stores, the
  liveness probe and the flag lookup are outside the file; the model makes their
  observable state a record, logs every call made on a store in a trace, and lets each
  call that can fail take its answer from a field of that record, so that every error
  branch of the source is a branch of the model.
\<close>

subsection \<open>Integers, errors, outcomes\<close>

text \<open>
  Go's \<^verbatim>\<open>int64\<close> and \<^verbatim>\<open>uint64\<close> are 64-bit words: \<open>+\<close> and \<open>-\<close> wrap, \<open><s\<close> is the signed
  comparison of \<^verbatim>\<open>int64\<close>, \<open><\<close> and \<open>mod\<close> are the unsigned ones of \<^verbatim>\<open>uint64\<close>.
\<close>

type_synonym int64 = "64 word"
type_synonym uint64 = "64 word"

datatype error =
    ErrSyntax string  \<comment> \<open>\<^verbatim>\<open>strconv.NumError\<close> with \<^verbatim>\<open>ErrSyntax\<close>, for the input given\<close>
  | ErrRange string   \<comment> \<open>\<^verbatim>\<open>strconv.NumError\<close> with \<^verbatim>\<open>ErrRange\<close>, for the input given\<close>
  | ErrFlag string    \<comment> \<open>a flag lookup that fails\<close>
  | ErrStore string   \<comment> \<open>any error a store or the probe reports\<close>

text \<open>
  A Go function returning \<^verbatim>\<open>error\<close> returns \<open>None\<close> for \<^verbatim>\<open>nil\<close>. A function may also not
  return at all: \<open>Panic\<close> is the run-time panic of a nil-pointer dereference.
\<close>

datatype 'a outcome = Return 'a | Panic

subsection \<open>Constants (lines 24--33)\<close>

definition batchMaxSize :: uint64 where
  "batchMaxSize = 1000"

definition kValidators :: string where
  "kValidators = ''validatorsKey:''"

definition kConsensusParams :: string where
  "kConsensusParams = ''consensusParamsKey:''"

definition kABCIResponses :: string where
  "kABCIResponses = ''abciResponsesKey:''"

definition stateDBKeys :: "string list" where
  "stateDBKeys = [kValidators, kConsensusParams, kABCIResponses]"

subsection \<open>Decimal strings: \<^verbatim>\<open>strconv.FormatInt\<close> and \<^verbatim>\<open>strconv.ParseInt\<close> in base 10\<close>

definition digit_char :: "nat \<Rightarrow> char" where
  "digit_char d = ''0123456789'' ! d"

fun FormatUint :: "nat \<Rightarrow> string" where
  "FormatUint n =
     (if n < 10 then [digit_char n] else FormatUint (n div 10) @ [digit_char (n mod 10)])"

declare FormatUint.simps [simp del]

definition FormatInt :: "int64 \<Rightarrow> string" where
  "FormatInt c =
     (if sint c < 0 then CHR ''-'' # FormatUint (nat (- sint c))
      else FormatUint (nat (sint c)))"

datatype num_err = Syntax | Range

definition digit_val :: "char \<Rightarrow> int option" where
  "digit_val c = (if c \<in> set ''0123456789'' then Some (of_char c - 48) else None)"

text \<open>
  The digit loop of \<^verbatim>\<open>strconv.ParseUint(s, 10, 64)\<close>: the first bad character or the first
  overflow, whichever comes first from the left, decides the error. The accumulator is a
  \<^verbatim>\<open>uint64\<close> that the two checks keep in range, \<open>1844674407370955162\<close> being
  \<open>(2 ^ 64 - 1) div 10 + 1\<close>.
\<close>

fun ParseUint_loop :: "int \<Rightarrow> string \<Rightarrow> num_err + int" where
  "ParseUint_loop n [] = Inr n"
| "ParseUint_loop n (c # cs) =
     (case digit_val c of
        None \<Rightarrow> Inl Syntax
      | Some d \<Rightarrow>
          if 1844674407370955162 \<le> n then Inl Range
          else if 18446744073709551615 < n * 10 + d then Inl Range
          else ParseUint_loop (n * 10 + d) cs)"

definition ParseUint :: "string \<Rightarrow> num_err + int" where
  "ParseUint s = (if s = [] then Inl Syntax else ParseUint_loop 0 s)"

text \<open>
  \<^verbatim>\<open>strconv.ParseInt(s, 10, 64)\<close>: an optional sign, then the digits; the magnitude must fit
  \<^verbatim>\<open>int64\<close>.
\<close>

definition ParseInt :: "string \<Rightarrow> error + int64" where
  "ParseInt s =
     (if s = [] then Inl (ErrSyntax s)
      else
        let neg = (hd s = CHR ''-'');
            s1 = (if hd s = CHR ''+'' \<or> hd s = CHR ''-'' then tl s else s)
        in case ParseUint s1 of
             Inl Syntax \<Rightarrow> Inl (ErrSyntax s)
           | Inl Range \<Rightarrow> Inl (ErrRange s)
           | Inr un \<Rightarrow>
               if \<not> neg \<and> 9223372036854775808 \<le> un then Inl (ErrRange s)
               else if neg \<and> 9223372036854775808 < un then Inl (ErrRange s)
               else Inr (if neg then - word_of_int un else word_of_int un))"

subsection \<open>The stores\<close>

datatype store = BlockStoreDB | StateDB

datatype batch_op = Delete string

type_synonym batch = "batch_op list"

datatype event =
    Open store
  | PruneBlocks int64
  | Write batch
  | CompactRange store
  | Close store

text \<open>
  The world a run acts on. \<open>blocks_base\<close> and \<open>blocks_height\<close> are what the block store
  reports as \<^verbatim>\<open>Base()\<close> and \<^verbatim>\<open>Height()\<close>; \<open>state_kv\<close> is the content of \<^verbatim>\<open>state.db\<close>. The
  \<open>fail_\<close> fields are the answers of the calls that can fail, one per call site
  (\<open>None\<close> is success); \<open>fail_ss_write\<close> lists the answers of the successive batch commits
  that reach the disk, and a commit past the end of the list succeeds. \<open>trace\<close> logs the
  calls made on the stores in order, \<open>stdout\<close> the lines printed.
\<close>

record World =
  blocks_base :: int64
  blocks_height :: int64
  state_kv :: "string \<rightharpoonup> string"
  fail_bs_open :: "error option"     \<comment> \<open>line 130\<close>
  fail_bs_prune :: "error option"    \<comment> \<open>line 143, an I/O failure inside the store\<close>
  fail_bs_close :: "error option"    \<comment> \<open>line 153\<close>
  fail_cb_open :: "error option"     \<comment> \<open>line 168\<close>
  fail_cb_compact :: "error option"  \<comment> \<open>line 175\<close>
  fail_cb_close :: "error option"    \<comment> \<open>line 170\<close>
  fail_ss_open :: "error option"     \<comment> \<open>line 187\<close>
  fail_ss_write :: "error option list"  \<comment> \<open>lines 215 and 224\<close>
  fail_ss_compact :: "error option"  \<comment> \<open>line 232\<close>
  trace :: "event list"
  stdout :: "string list"

definition log_event :: "event \<Rightarrow> World \<Rightarrow> World" where
  "log_event e w = w\<lparr>trace := trace w @ [e]\<rparr>"

definition Println :: "string \<Rightarrow> World \<Rightarrow> World" where
  "Println l w = w\<lparr>stdout := stdout w @ [l]\<rparr>"

text \<open>
  \<^verbatim>\<open>leveldb.DB.Write\<close>: a batch is applied as a whole or not at all. A batch of length 0
  returns \<^verbatim>\<open>nil\<close> at once on an open store, without touching the disk.
\<close>

fun apply_op :: "batch_op \<Rightarrow> (string \<rightharpoonup> string) \<Rightarrow> (string \<rightharpoonup> string)" where
  "apply_op (Delete k) m = m(k := None)"

definition apply_batch :: "batch \<Rightarrow> (string \<rightharpoonup> string) \<Rightarrow> (string \<rightharpoonup> string)" where
  "apply_batch b m = fold apply_op b m"

definition db_Write :: "batch \<Rightarrow> World \<Rightarrow> error option \<times> World" where
  "db_Write b w =
     (let w1 = log_event (Write b) w
      in if b = [] then (None, w1)
         else case fail_ss_write w1 of
                [] \<Rightarrow> (None, w1\<lparr>state_kv := apply_batch b (state_kv w1)\<rparr>)
              | None # rs \<Rightarrow>
                  (None, w1\<lparr>state_kv := apply_batch b (state_kv w1), fail_ss_write := rs\<rparr>)
              | Some e # rs \<Rightarrow> (Some e, w1\<lparr>fail_ss_write := rs\<rparr>))"

text \<open>
  \<^verbatim>\<open>tmstore.BlockStore.PruneBlocks\<close>, as the tendermint store implements it: the cutoff
  must be positive, at most the height and at least the base; the blocks from the base
  up to the cutoff (exclusive) are removed, their number is returned and the cutoff is
  the new base.
\<close>

definition bs_PruneBlocks :: "int64 \<Rightarrow> World \<Rightarrow> (error + uint64) \<times> World" where
  "bs_PruneBlocks h w =
     (let w1 = log_event (PruneBlocks h) w
      in if h \<le>s 0 then (Inl (ErrStore ''height must be greater than 0''), w1)
         else if blocks_height w1 <s h
           then (Inl (ErrStore (''cannot prune beyond the latest height ''
                                  @ FormatInt (blocks_height w1))), w1)
         else if h <s blocks_base w1
           then (Inl (ErrStore (''cannot prune to height '' @ FormatInt h
                                  @ '', it is lower than base height ''
                                  @ FormatInt (blocks_base w1))), w1)
         else case fail_bs_prune w1 of
                Some e \<Rightarrow> (Inl e, w1)
              | None \<Rightarrow> (Inr (h - blocks_base w1), w1\<lparr>blocks_base := h\<rparr>))"

text \<open>
  \<^verbatim>\<open>leveldb.OpenFile\<close> returns a nil handle together with its error. The handle is a
  pointer: \<open>None\<close> is \<^verbatim>\<open>nil\<close>, and \<^verbatim>\<open>Close\<close> on \<^verbatim>\<open>nil\<close> dereferences it and panics. A
  compaction reorganises the files and leaves the content of the store as it is. The
  second argument of each call is the answer the world holds for its call site.
\<close>

type_synonym handle = "store option"

definition OpenFile :: "store \<Rightarrow> error option \<Rightarrow> World \<Rightarrow> (error + store) \<times> World" where
  "OpenFile s r w = (case r of Some e \<Rightarrow> Inl e | None \<Rightarrow> Inr s, log_event (Open s) w)"

definition db_CompactRange :: "store \<Rightarrow> error option \<Rightarrow> World \<Rightarrow> error option \<times> World" where
  "db_CompactRange s r w = (r, log_event (CompactRange s) w)"

definition db_Close :: "handle \<Rightarrow> error option \<Rightarrow> World \<Rightarrow> error option outcome \<times> World" where
  "db_Close h r w =
     (case h of None \<Rightarrow> (Panic, w) | Some s \<Rightarrow> (Return r, log_event (Close s) w))"

subsection \<open>\<^verbatim>\<open>pruneBlockStoreAndGetHeights\<close> (lines 123--158)\<close>

text \<open>
  On an error the source returns \<^verbatim>\<open>(0, 0, err)\<close> and the caller reads \<^verbatim>\<open>err\<close> only: the
  model returns \<open>Inl err\<close>. The deferred \<^verbatim>\<open>db_bs.Close()\<close> of line 136 runs on every path
  after the open, its result dropped.
\<close>

definition pruneBlockStoreAndGetHeights ::
  "World \<Rightarrow> int64 \<Rightarrow> (error + int64 \<times> int64) \<times> World" where
  "pruneBlockStoreAndGetHeights w fullHeight =
     (case OpenFile BlockStoreDB (fail_bs_open w) w of
        (Inl e, w1) \<Rightarrow> (Inl e, w1)
      | (Inr db_bs, w1) \<Rightarrow>
          let startHeight = blocks_base w1;
              currentHeight = blocks_height w1;
              w2 = Println ''[!] Pruning Block Store ...'' w1
          in case bs_PruneBlocks (currentHeight - fullHeight) w2 of
               (Inl e, w3) \<Rightarrow> (Inl e, log_event (Close db_bs) w3)
             | (Inr prunedBlocks, w3) \<Rightarrow>
                 let w4 = Println (''[!] Pruned Block Store ... ''
                                     @ FormatUint (unat prunedBlocks)) w3;
                     w5 = log_event (Close db_bs) w4
                 in case fail_bs_close w5 of
                      Some e \<Rightarrow> (Inl e, log_event (Close db_bs) w5)
                    | None \<Rightarrow>
                        (Inr (startHeight, currentHeight), log_event (Close db_bs) w5))"

subsection \<open>\<^verbatim>\<open>compactBlockStore\<close> (lines 161--179)\<close>

text \<open>
  The result \<^verbatim>\<open>err\<close> is a named result, and the function deferred at lines 169--171
  assigns \<^verbatim>\<open>db.Close()\<close> to it after the return statement has stored its value there.
  The deferred function takes the handle and the value the return statement stored.
\<close>

definition compactBlockStore_deferred ::
  "handle \<Rightarrow> error option \<Rightarrow> World \<Rightarrow> error option outcome \<times> World" where
  "compactBlockStore_deferred db err w = db_Close db (fail_cb_close w) w"

definition compactBlockStore :: "World \<Rightarrow> error option outcome \<times> World" where
  "compactBlockStore w =
     (let w1 = Println ''[!] Compacting Block Store ...'' w
      in case OpenFile BlockStoreDB (fail_cb_open w1) w1 of
           (Inl e, w2) \<Rightarrow> compactBlockStore_deferred None (Some e) w2
         | (Inr db, w2) \<Rightarrow>
             (case db_CompactRange db (fail_cb_compact w2) w2 of
                (Some e, w3) \<Rightarrow> compactBlockStore_deferred (Some db) (Some e) w3
              | (None, w3) \<Rightarrow> compactBlockStore_deferred (Some db) None w3))"

subsection \<open>\<^verbatim>\<open>pruneStateStore\<close> (lines 182--236)\<close>

text \<open>The loop over the heights, lines 210--222.\<close>

function height_loop ::
  "string \<Rightarrow> int64 \<Rightarrow> int64 \<Rightarrow> batch \<Rightarrow> uint64 \<Rightarrow> World \<Rightarrow> (error + batch) \<times> World" where
  "height_loop s c retain_height batch curBatchSize w =
     (if c <s retain_height then
        let batch1 = batch @ [Delete (s @ FormatInt c)];
            curBatchSize1 = curBatchSize + 1
        in if curBatchSize1 mod batchMaxSize = 0 \<and> 0 < curBatchSize1 then
             case db_Write batch1 w of
               (Some e, w1) \<Rightarrow> (Inl e, w1)
             | (None, w1) \<Rightarrow> height_loop s (c + 1) retain_height [] curBatchSize1 w1
           else height_loop s (c + 1) retain_height batch1 curBatchSize1 w
      else (Inr batch, w))"
  by pat_completeness auto
termination
proof -
  have step: "sint (c + 1) = sint c + 1" if "c <s r" for c r :: int64
    using that sint_lt [of r] sint_ge [of c]
    by (simp add: word_sless_alt sint_word_ariths signed_take_bit_int_eq_self)
  show ?thesis
    by (relation "measure (\<lambda>(s, c, r, b, n, w). nat (sint r - sint c))")
       (auto simp: step word_sless_alt)
qed

declare height_loop.simps [simp del]

text \<open>The retention height of a namespace, lines 198--203.\<close>

definition retain_height :: "string \<Rightarrow> int64 \<Rightarrow> int64 \<Rightarrow> int64 \<Rightarrow> int64" where
  "retain_height s currentHeight minHeight fullHeight =
     (if s = kABCIResponses then currentHeight - minHeight else currentHeight - fullHeight)"

text \<open>
  The body of the loop over the namespaces, lines 196--228, for the namespace \<open>s\<close> at
  index \<open>i\<close>: the height loop, then the final \<^verbatim>\<open>db.Write\<close> of line 224.
\<close>

definition namespace_body ::
  "int64 \<Rightarrow> int64 \<Rightarrow> int64 \<Rightarrow> int64 \<Rightarrow> nat \<Rightarrow> string \<Rightarrow> World \<Rightarrow> error option \<times> World" where
  "namespace_body startHeight currentHeight minHeight fullHeight i s w =
     (let w1 = Println (FormatUint i @ '' '' @ s) w;
          r = retain_height s currentHeight minHeight fullHeight;
          w2 = Println (FormatInt startHeight @ '' '' @ FormatInt currentHeight @ '' ''
                          @ FormatInt r) w1
      in case height_loop s startHeight r [] 0 w2 of
           (Inl e, w3) \<Rightarrow> (Some e, w3)
         | (Inr batch, w3) \<Rightarrow> db_Write batch w3)"

text \<open>The loop over the namespaces, lines 195--229, from index \<open>i\<close> on.\<close>

fun namespace_loop ::
  "int64 \<Rightarrow> int64 \<Rightarrow> int64 \<Rightarrow> int64 \<Rightarrow> nat \<Rightarrow> string list \<Rightarrow> World \<Rightarrow> error option \<times> World" where
  "namespace_loop startHeight currentHeight minHeight fullHeight i [] w = (None, w)"
| "namespace_loop startHeight currentHeight minHeight fullHeight i (s # ss) w =
     (case namespace_body startHeight currentHeight minHeight fullHeight i s w of
        (Some e, w1) \<Rightarrow> (Some e, w1)
      | (None, w1) \<Rightarrow>
          namespace_loop startHeight currentHeight minHeight fullHeight (Suc i) ss w1)"

text \<open>
  The deferred \<^verbatim>\<open>db.Close()\<close> of line 191 runs on every path after the open, its result
  dropped; the handle is not nil there.
\<close>

definition pruneStateStore ::
  "World \<Rightarrow> int64 \<Rightarrow> int64 \<Rightarrow> int64 \<Rightarrow> int64 \<Rightarrow> error option \<times> World" where
  "pruneStateStore w startHeight currentHeight minHeight fullHeight =
     (case OpenFile StateDB (fail_ss_open w) w of
        (Inl e, w1) \<Rightarrow> (Some e, w1)
      | (Inr db, w1) \<Rightarrow>
          let w2 = Println ''[!] Pruning State Store ...'' w1;
              (err, w5) =
                (case namespace_loop startHeight currentHeight minHeight fullHeight 0
                        stateDBKeys w2 of
                   (Some e, w3) \<Rightarrow> (Some e, w3)
                 | (None, w3) \<Rightarrow>
                     let w4 = Println ''[!] Compacting State Store ...'' w3
                     in db_CompactRange db (fail_ss_compact w4) w4)
          in (err, log_event (Close db) w5))"

subsection \<open>\<^verbatim>\<open>runStartPruneCmd\<close> (lines 70--120)\<close>

text \<open>
  \<open>Cmd\<close> holds what \<^verbatim>\<open>cmd.Flags().GetString\<close> answers for the two flags; \<open>status\<close> is what
  \<^verbatim>\<open>cmdr.Run()\<close> of the probe \<^verbatim>\<open>chihuahuad status\<close> returns. Both stores live under the one
  \<^verbatim>\<open>dbPath\<close> of the run, which the model leaves out.
\<close>

record Cmd =
  flag_fullHeight :: "error + string"
  flag_minHeight :: "error + string"

definition runStartPruneCmd ::
  "Cmd \<Rightarrow> error option \<Rightarrow> World \<Rightarrow> error option outcome \<times> World" where
  "runStartPruneCmd cmd status w =
     (case flag_fullHeight cmd of
        Inl e \<Rightarrow> (Return (Some e), w)
      | Inr fullHeightFlag \<Rightarrow>
     (case flag_minHeight cmd of
        Inl e \<Rightarrow> (Return (Some e), w)
      | Inr minHeightFlag \<Rightarrow>
     if status = None then (Return None, w)
     else
     (case ParseInt fullHeightFlag of
        Inl e \<Rightarrow> (Return (Some e), w)
      | Inr fullHeight \<Rightarrow>
     (case ParseInt minHeightFlag of
        Inl e \<Rightarrow> (Return (Some e), w)
      | Inr minHeight \<Rightarrow>
     (case pruneBlockStoreAndGetHeights w fullHeight of
        (Inl e, w1) \<Rightarrow> (Return (Some e), w1)
      | (Inr (startHeight, currentHeight), w1) \<Rightarrow>
     (case compactBlockStore w1 of
        (Panic, w2) \<Rightarrow> (Panic, w2)
      | (Return (Some e), w2) \<Rightarrow> (Return (Some e), w2)
      | (Return None, w2) \<Rightarrow>
     (case pruneStateStore w2 startHeight currentHeight minHeight fullHeight of
        (Some e, w3) \<Rightarrow> (Return (Some e), w3)
      | (None, w3) \<Rightarrow> (Return None, Println ''[*] Done!'' w3))))))))"

subsection \<open>A small world\<close>

text \<open>
  A block store holding the heights 1 to 5 and a state store holding a few keys, where
  every call succeeds. The examples below start from it.
\<close>

definition example_world :: World where
  "example_world =
     \<lparr>blocks_base = 1, blocks_height = 5,
      state_kv = [''validatorsKey:1'' \<mapsto> ''v1'', ''validatorsKey:3'' \<mapsto> ''v3'',
                  ''abciResponsesKey:3'' \<mapsto> ''a3'', ''abciResponsesKey:4'' \<mapsto> ''a4''],
      fail_bs_open = None, fail_bs_prune = None, fail_bs_close = None,
      fail_cb_open = None, fail_cb_compact = None, fail_cb_close = None,
      fail_ss_open = None, fail_ss_write = [], fail_ss_compact = None,
      trace = [], stdout = []\<rparr>"

definition example_cmd :: Cmd where
  "example_cmd = \<lparr>flag_fullHeight = Inr ''2'', flag_minHeight = Inr ''1''\<rparr>"

section \<open>Properties\<close>

subsection \<open>The block-store compactor\<close>

lemma compactBlockStore_opened:
  "fail_cb_open w = None \<Longrightarrow>
   compactBlockStore w =
     (Return (fail_cb_close w),
      w\<lparr>stdout := stdout w @ [''[!] Compacting Block Store ...''],
        trace := trace w @ [Open BlockStoreDB, CompactRange BlockStoreDB, Close BlockStoreDB]\<rparr>)"
  by (simp add: compactBlockStore_def compactBlockStore_deferred_def OpenFile_def
      db_CompactRange_def db_Close_def Println_def log_event_def Let_def split: option.split)

lemma compactBlockStore_not_opened:
  "fail_cb_open w = Some e \<Longrightarrow>
   compactBlockStore w =
     (Panic,
      w\<lparr>stdout := stdout w @ [''[!] Compacting Block Store ...''],
        trace := trace w @ [Open BlockStoreDB]\<rparr>)"
  by (simp add: compactBlockStore_def compactBlockStore_deferred_def OpenFile_def
      db_Close_def Println_def log_event_def Let_def)

text \<open>
  C3. When the open of line 168 fails, \<^verbatim>\<open>compactBlockStore\<close> does not return the open
  error: the deferred function closes the nil handle and the call panics. No call on the
  store follows the failed open.
\<close>

theorem C3_open_failure_panics:
  "fail_cb_open w = Some e \<Longrightarrow>
   fst (compactBlockStore w) = Panic \<and>
   fst (compactBlockStore w) \<noteq> Return (Some e) \<and>
   trace (snd (compactBlockStore w)) = trace w @ [Open BlockStoreDB]"
  by (simp add: compactBlockStore_not_opened)

theorem C3_open_failure_panics_witness:
  "fail_cb_open (example_world\<lparr>fail_cb_open := Some (ErrStore ''open'')\<rparr>)
     = Some (ErrStore ''open'') \<and>
   fst (compactBlockStore (example_world\<lparr>fail_cb_open := Some (ErrStore ''open'')\<rparr>))
     = Panic"
  using C3_open_failure_panics
    [of "example_world\<lparr>fail_cb_open := Some (ErrStore ''open'')\<rparr>" "ErrStore ''open''"]
  by simp

text \<open>
  C7. When the open of line 168 succeeds, \<^verbatim>\<open>compactBlockStore\<close> returns what \<^verbatim>\<open>db.Close()\<close>
  returns, whatever the compaction returned: the close is the last call on the store and
  its answer is the result.
\<close>

theorem C7_close_result_is_returned:
  "fail_cb_open w = None \<Longrightarrow>
   fst (compactBlockStore w) = Return (fail_cb_close w) \<and>
   trace (snd (compactBlockStore w))
     = trace w @ [Open BlockStoreDB, CompactRange BlockStoreDB, Close BlockStoreDB]"
  by (simp add: compactBlockStore_opened)

theorem C7_close_result_is_returned_witness:
  "fail_cb_open (example_world\<lparr>fail_cb_close := Some (ErrStore ''flush'')\<rparr>) = None \<and>
   fail_cb_compact (example_world\<lparr>fail_cb_close := Some (ErrStore ''flush'')\<rparr>) = None \<and>
   fst (compactBlockStore (example_world\<lparr>fail_cb_close := Some (ErrStore ''flush'')\<rparr>))
     = Return (Some (ErrStore ''flush''))"
  using C7_close_result_is_returned
    [of "example_world\<lparr>fail_cb_close := Some (ErrStore ''flush'')\<rparr>"]
  by (simp add: example_world_def)

subsection \<open>The liveness probe\<close>

text \<open>
  C5. When both flags are read and the probe returns no error (the node answers), the
  command returns \<^verbatim>\<open>nil\<close> and the world is untouched: no call on a store, no line printed,
  no height read.
\<close>

theorem C5_live_node_no_mutation:
  "flag_fullHeight cmd = Inr f \<Longrightarrow> flag_minHeight cmd = Inr m \<Longrightarrow>
   runStartPruneCmd cmd None w = (Return None, w)"
  by (simp add: runStartPruneCmd_def)

theorem C5_live_node_no_mutation_witness:
  "flag_fullHeight example_cmd = Inr ''2'' \<and> flag_minHeight example_cmd = Inr ''1'' \<and>
   runStartPruneCmd example_cmd None example_world = (Return None, example_world)"
  using C5_live_node_no_mutation [of example_cmd "''2''" "''1''" example_world]
  by (simp add: example_cmd_def)

subsection \<open>The height loop\<close>

lemma sint_succ_sless: "(c :: int64) <s r \<Longrightarrow> sint (c + 1) = sint c + 1"
  using sint_lt [of r] sint_ge [of c]
  by (simp add: word_sless_alt sint_word_ariths signed_take_bit_int_eq_self)

lemma flush_cond:
  assumes "unat (sz :: uint64) + 1 < 2 ^ 64"
  shows "((sz + 1) mod batchMaxSize = 0 \<and> 0 < sz + 1) \<longleftrightarrow> (unat sz + 1) mod 1000 = 0"
proof -
  have u: "unat (sz + 1) = unat sz + 1"
    using assms by (simp add: unat_add_lem [THEN iffD1])
  have m: "unat ((sz + 1) mod batchMaxSize) = (unat sz + 1) mod 1000"
    by (simp add: unat_mod u batchMaxSize_def)
  have z: "((sz + 1) mod batchMaxSize = 0) \<longleftrightarrow> (unat sz + 1) mod 1000 = 0"
    using m by (metis unat_eq_0)
  have p: "0 < sz + 1"
    using u by (simp add: word_less_nat_alt)
  show ?thesis using z p by simp
qed

lemma apply_batch_eq: "apply_batch b m k = (if Delete k \<in> set b then None else m k)"
  unfolding apply_batch_def
proof (induction b arbitrary: m)
  case Nil
  then show ?case by simp
next
  case (Cons a b)
  then show ?case by (cases a) auto
qed

lemma db_Write_trace: "trace (snd (db_Write b w)) = trace w @ [Write b]"
  by (simp add: db_Write_def log_event_def Let_def split: list.split option.split)

lemma db_Write_stdout: "stdout (snd (db_Write b w)) = stdout w"
  by (simp add: db_Write_def log_event_def Let_def split: list.split option.split)

lemma db_Write_kv: "fst (db_Write b w) = None \<Longrightarrow> state_kv (snd (db_Write b w)) = apply_batch b (state_kv w)"
  by (auto simp add: db_Write_def log_event_def Let_def apply_batch_def split: list.split option.split)

lemma range_step:
  assumes "(c::int64) <s r"
  shows "{k. c \<le>s k \<and> k <s r} = insert c {k. c + 1 \<le>s k \<and> k <s r}"
proof -
  have inj: "x = c \<longleftrightarrow> sint x = sint c" for x :: int64
    by (auto simp add: signed_word_eqI)
  have "(c \<le>s k \<and> k <s r) \<longleftrightarrow> (k = c \<or> (c + 1 \<le>s k \<and> k <s r))" for k
    using assms sint_succ_sless [OF assms] 
    unfolding word_sle_eq word_sless_alt inj [of k] by linarith
  then show ?thesis by blast
qed



lemma apply_batch_append: "apply_batch (xs @ ys) m = apply_batch ys (apply_batch xs m)"
  by (simp add: apply_batch_def)

lemma height_loop_inv:
  "height_loop s c r b sz w = (Inr b', w') \<Longrightarrow>
   length b = unat sz mod 1000 \<Longrightarrow>
   unat sz + nat (sint r - sint c) < 2 ^ 64 \<Longrightarrow>
   \<exists>mid. trace w' = trace w @ map Write mid \<and>
     length mid = (length b + nat (sint r - sint c)) div 1000 \<and>
     (\<forall>x\<in>set mid. length x = 1000) \<and>
     length b' = (length b + nat (sint r - sint c)) mod 1000 \<and>
     set (concat mid) \<union> set b' = set b \<union> (\<lambda>k. Delete (s @ FormatInt k)) ` {k. c \<le>s k \<and> k <s r} \<and>
     state_kv w' = apply_batch (concat mid) (state_kv w) \<and>
     stdout w' = stdout w"
proof (induction s c r b sz w rule: height_loop.induct)
  case (1 s c r b sz w)
  note run = "1.prems"(1) and len = "1.prems"(2) and bound = "1.prems"(3)
  let ?d = "Delete (s @ FormatInt c)"
  show ?case
  proof (cases "c <s r")
    case False
    have R: "nat (sint r - sint c) = 0"
      using False by (simp add: word_sless_alt)
    have res: "b' = b" "w' = w"
      using run False by (simp_all add: height_loop.simps [of s c r b sz w])
    have lt: "length b < 1000"
      using len by simp
    have emp: "{k. c \<le>s k \<and> k <s r} = {}"
      using False by (auto simp: word_sle_eq word_sless_alt)
    show ?thesis
      by (rule exI [of _ "[]"]) (simp add: R res lt emp apply_batch_def)
  next
    case True
    have sc: "sint (c + 1) = sint c + 1"
      by (rule sint_succ_sless [OF True])
    have R: "nat (sint r - sint c) = Suc (nat (sint r - sint (c + 1)))"
      using True sc by (simp add: word_sless_alt)
    have nowrap: "unat sz + 1 < 2 ^ 64"
      using bound R by simp
    have usz: "unat (sz + 1) = unat sz + 1"
      using nowrap by (simp add: unat_add_lem [THEN iffD1])
    have bound': "unat (sz + 1) + nat (sint r - sint (c + 1)) < 2 ^ 64"
      using bound R usz by simp
    have keys: "(\<lambda>k. Delete (s @ FormatInt k)) ` {k. c \<le>s k \<and> k <s r}
        = insert ?d ((\<lambda>k. Delete (s @ FormatInt k)) ` {k. c + 1 \<le>s k \<and> k <s r})"
      by (simp add: range_step [OF True])
    show ?thesis
    proof (cases "(sz + 1) mod batchMaxSize = 0 \<and> 0 < sz + 1")
      case flush: True
      have m0: "(unat sz + 1) mod 1000 = 0"
        using flush flush_cond [OF nowrap] by simp
      have "Suc (unat sz mod 1000) = 1000"
        using m0 by (simp add: mod_Suc split: if_splits)
      then have lenb: "length b = 999"
        using len by simp
      obtain r1 w1 where wr: "(r1, w1) = db_Write (b @ [?d]) w"
        by (cases "db_Write (b @ [?d]) w") simp
      have r1: "r1 = None"
        using run True flush wr [symmetric]
        by (simp add: height_loop.simps [of s c r b sz w] split: option.splits)
      have rest: "height_loop s (c + 1) r [] (sz + 1) w1 = (Inr b', w')"
        using run True flush wr [symmetric] r1
        by (simp add: height_loop.simps [of s c r b sz w])
      have len': "length ([] :: batch) = unat (sz + 1) mod 1000"
        using usz m0 by simp
      from "1.IH"(1) [OF True refl refl flush wr r1 rest len' bound']
      obtain mid where mid:
        "trace w' = trace w1 @ map Write mid"
        "length mid = (length ([] :: batch) + nat (sint r - sint (c + 1))) div 1000"
        "\<forall>x\<in>set mid. length x = 1000"
        "length b' = (length ([] :: batch) + nat (sint r - sint (c + 1))) mod 1000"
        "set (concat mid) \<union> set b' = set ([] :: batch) \<union> (\<lambda>k. Delete (s @ FormatInt k)) ` {k. c + 1 \<le>s k \<and> k <s r}"
        "state_kv w' = apply_batch (concat mid) (state_kv w1)"
        "stdout w' = stdout w1"
        by blast
      have tr1: "trace w1 = trace w @ [Write (b @ [?d])]"
        using db_Write_trace [of "b @ [?d]" w] wr [symmetric] by simp
      have kv1: "state_kv w1 = apply_batch (b @ [?d]) (state_kv w)"
        using db_Write_kv [of "b @ [?d]" w] wr [symmetric] r1 by simp
      have so1: "stdout w1 = stdout w"
        using db_Write_stdout [of "b @ [?d]" w] wr [symmetric] by simp
      have c1: "trace w' = trace w @ map Write ((b @ [?d]) # mid)"
        using mid(1) tr1 by simp
      have c2: "length ((b @ [?d]) # mid) = (length b + nat (sint r - sint c)) div 1000"
        using mid(2) lenb R by simp
      have c3: "\<forall>x\<in>set ((b @ [?d]) # mid). length x = 1000"
        using mid(3) lenb by simp
      have c4: "length b' = (length b + nat (sint r - sint c)) mod 1000"
        using mid(4) lenb R by simp
      have c5: "set (concat ((b @ [?d]) # mid)) \<union> set b'
          = set b \<union> (\<lambda>k. Delete (s @ FormatInt k)) ` {k. c \<le>s k \<and> k <s r}"
        using mid(5) keys by auto
      have c6: "state_kv w' = apply_batch (concat ((b @ [?d]) # mid)) (state_kv w)"
        by (simp only: mid(6) kv1 concat.simps apply_batch_append)
      have c7: "stdout w' = stdout w"
        using mid(7) so1 by simp
      show ?thesis
        using c1 c2 c3 c4 c5 c6 c7 by blast
    next
      case noflush: False
      have m0: "(unat sz + 1) mod 1000 \<noteq> 0"
        using noflush flush_cond [OF nowrap] by simp
      have rest: "height_loop s (c + 1) r (b @ [?d]) (sz + 1) w = (Inr b', w')"
        using run True noflush
        by (simp add: height_loop.simps [of s c r b sz w])
      have len': "length (b @ [?d]) = unat (sz + 1) mod 1000"
        using usz m0 len by (simp add: mod_Suc split: if_splits)
      from "1.IH"(2) [OF True refl refl noflush rest len' bound']
      obtain mid where mid:
        "trace w' = trace w @ map Write mid"
        "length mid = (length (b @ [?d]) + nat (sint r - sint (c + 1))) div 1000"
        "\<forall>x\<in>set mid. length x = 1000"
        "length b' = (length (b @ [?d]) + nat (sint r - sint (c + 1))) mod 1000"
        "set (concat mid) \<union> set b' = set (b @ [?d]) \<union> (\<lambda>k. Delete (s @ FormatInt k)) ` {k. c + 1 \<le>s k \<and> k <s r}"
        "state_kv w' = apply_batch (concat mid) (state_kv w)"
        "stdout w' = stdout w"
        by blast
      have c2: "length mid = (length b + nat (sint r - sint c)) div 1000"
        using mid(2) R by simp
      have c4: "length b' = (length b + nat (sint r - sint c)) mod 1000"
        using mid(4) R by simp
      have c5: "set (concat mid) \<union> set b'
          = set b \<union> (\<lambda>k. Delete (s @ FormatInt k)) ` {k. c \<le>s k \<and> k <s r}"
        using mid(5) keys by auto
      show ?thesis
        using mid(1) c2 mid(3) c4 c5 mid(6) mid(7) by blast
    qed
  qed
qed

lemma Println_fields:
  "trace (Println l w) = trace w" "state_kv (Println l w) = state_kv w"
  "stdout (Println l w) = stdout w @ [l]"
  by (simp_all add: Println_def)

lemma namespace_body_ok:
  assumes ok: "fst (namespace_body st cur mn fl i s w) = None"
  shows "\<exists>mid final.
     trace (snd (namespace_body st cur mn fl i s w)) = trace w @ map Write mid @ [Write final] \<and>
     length mid = nat (sint (retain_height s cur mn fl) - sint st) div 1000 \<and>
     (\<forall>x\<in>set mid. length x = 1000) \<and>
     length final = nat (sint (retain_height s cur mn fl) - sint st) mod 1000 \<and>
     set (concat mid) \<union> set final
       = (\<lambda>k. Delete (s @ FormatInt k)) ` {k. st \<le>s k \<and> k <s retain_height s cur mn fl} \<and>
     state_kv (snd (namespace_body st cur mn fl i s w))
       = apply_batch (concat mid @ final) (state_kv w)"
proof -
  let ?r = "retain_height s cur mn fl"
  let ?w2 = "Println (FormatInt st @ '' '' @ FormatInt cur @ '' '' @ FormatInt ?r)
               (Println (FormatUint i @ '' '' @ s) w)"
  obtain res w3 where hl: "height_loop s st ?r [] 0 ?w2 = (res, w3)"
    by (cases "height_loop s st ?r [] 0 ?w2")
  have body: "namespace_body st cur mn fl i s w
      = (case res of Inl e \<Rightarrow> (Some e, w3) | Inr batch \<Rightarrow> db_Write batch w3)"
    using hl by (simp add: namespace_body_def Let_def)
  obtain final where res: "res = Inr final"
    using ok body by (cases res) simp_all
  have wr: "namespace_body st cur mn fl i s w = db_Write final w3"
    using body res by simp
  have bound: "unat (0 :: uint64) + nat (sint ?r - sint st) < 2 ^ 64"
    using sint_lt [of ?r] sint_ge [of st] by simp
  from height_loop_inv [OF hl [unfolded res] _ bound]
  obtain mid where mid:
    "trace w3 = trace ?w2 @ map Write mid"
    "length mid = (length ([] :: batch) + nat (sint ?r - sint st)) div 1000"
    "\<forall>x\<in>set mid. length x = 1000"
    "length final = (length ([] :: batch) + nat (sint ?r - sint st)) mod 1000"
    "set (concat mid) \<union> set final
       = set ([] :: batch) \<union> (\<lambda>k. Delete (s @ FormatInt k)) ` {k. st \<le>s k \<and> k <s ?r}"
    "state_kv w3 = apply_batch (concat mid) (state_kv ?w2)"
    by auto
  have c1: "trace (snd (namespace_body st cur mn fl i s w)) = trace w @ map Write mid @ [Write final]"
    by (simp add: wr db_Write_trace mid(1) Println_fields)
  have c6: "state_kv (snd (namespace_body st cur mn fl i s w))
       = apply_batch (concat mid @ final) (state_kv w)"
    using ok by (simp add: wr db_Write_kv mid(6) Println_fields apply_batch_append)
  show ?thesis
    using c1 mid(2) mid(3) mid(4) mid(5) c6 by (intro exI [of _ mid] exI [of _ final]) simp
qed

lemma namespace_body_kv:
  assumes ok: "fst (namespace_body st cur mn fl i s w) = None"
  shows "state_kv (snd (namespace_body st cur mn fl i s w)) k =
     (if \<exists>c. st \<le>s c \<and> c <s retain_height s cur mn fl \<and> k = s @ FormatInt c then None
      else state_kv w k)"
proof -
  from namespace_body_ok [OF ok] obtain mid final where
    keys: "set (concat mid) \<union> set final
       = (\<lambda>k. Delete (s @ FormatInt k)) ` {k. st \<le>s k \<and> k <s retain_height s cur mn fl}"
    and kv: "state_kv (snd (namespace_body st cur mn fl i s w))
       = apply_batch (concat mid @ final) (state_kv w)"
    by blast
  have "Delete k \<in> set (concat mid @ final) \<longleftrightarrow>
      (\<exists>c. st \<le>s c \<and> c <s retain_height s cur mn fl \<and> k = s @ FormatInt c)"
    using keys by auto
  then show ?thesis
    by (simp only: kv apply_batch_eq)
qed

lemma namespace_loop_kv:
  "fst (namespace_loop st cur mn fl i ss w) = None \<Longrightarrow>
   state_kv (snd (namespace_loop st cur mn fl i ss w)) k =
     (if \<exists>s\<in>set ss. \<exists>c. st \<le>s c \<and> c <s retain_height s cur mn fl \<and> k = s @ FormatInt c
      then None else state_kv w k)"
proof (induction ss arbitrary: i w)
  case Nil
  then show ?case by simp
next
  case (Cons s ss)
  obtain rb w1 where body: "namespace_body st cur mn fl i s w = (rb, w1)"
    by (cases "namespace_body st cur mn fl i s w")
  have rb: "rb = None"
    using Cons.prems body by (cases rb) simp_all
  have loop: "namespace_loop st cur mn fl i (s # ss) w = namespace_loop st cur mn fl (Suc i) ss w1"
    using body rb by simp
  have ok1: "fst (namespace_loop st cur mn fl (Suc i) ss w1) = None"
    using Cons.prems loop by simp
  have kv1: "state_kv w1 k =
     (if \<exists>c. st \<le>s c \<and> c <s retain_height s cur mn fl \<and> k = s @ FormatInt c then None
      else state_kv w k)"
    using namespace_body_kv [of st cur mn fl i s w k] body rb by simp
  show ?case
    unfolding loop Cons.IH [OF ok1] kv1 by auto
qed

subsection \<open>Keys are distinct\<close>

lemma digit_char_code: "d < 10 \<Longrightarrow> of_char (digit_char d) = (48 + d :: nat)"
proof -
  assume "d < 10"
  then have "d \<in> {0, 1, 2, 3, 4, 5, 6, 7, 8, 9}"
    by auto
  then show ?thesis
    by (auto simp: digit_char_def)
qed

lemma decode_FormatUint:
  "foldl (\<lambda>a c. 10 * a + (of_char c - 48)) 0 (FormatUint n) = n"
proof (induction n rule: FormatUint.induct)
  case (1 n)
  show ?case
  proof (cases "n < 10")
    case True
    then show ?thesis
      by (simp add: FormatUint.simps [of n] digit_char_code)
  next
    case False
    then show ?thesis
      using "1.IH" by (simp add: FormatUint.simps [of n] digit_char_code)
  qed
qed

lemma FormatUint_inj: "FormatUint m = FormatUint n \<Longrightarrow> m = n"
  by (metis decode_FormatUint)

lemma FormatUint_hd: "hd (FormatUint n) \<noteq> CHR ''-''"
proof (induction n rule: FormatUint.induct)
  case (1 n)
  have dc: "digit_char d \<noteq> CHR ''-''" if "d < 10" for d
    using digit_char_code [OF that] by (auto simp: )
  have ne: "FormatUint m \<noteq> []" for m
    by (simp add: FormatUint.simps [of m])
  show ?case
  proof (cases "n < 10")
    case True
    then show ?thesis
      by (simp add: FormatUint.simps [of n] dc)
  next
    case False
    then show ?thesis
      using "1.IH" ne [of "n div 10"] by (simp add: FormatUint.simps [of n])
  qed
qed

lemma FormatInt_inj: "FormatInt a = FormatInt b \<Longrightarrow> a = b"
proof -
  assume eq: "FormatInt a = FormatInt b"
  have mixed: "CHR ''-'' # FormatUint m \<noteq> FormatUint n" for m n
    using FormatUint_hd [of n] by (metis list.sel(1))
  have "sint a = sint b"
  proof (cases "sint a < 0"; cases "sint b < 0")
    assume "sint a < 0" "sint b < 0"
    then show ?thesis
      using eq FormatUint_inj [of "nat (- sint a)" "nat (- sint b)"]
      by (simp add: FormatInt_def)
  next
    assume "sint a < 0" "\<not> sint b < 0"
    then show ?thesis
      using eq mixed by (simp add: FormatInt_def)
  next
    assume "\<not> sint a < 0" "sint b < 0"
    then show ?thesis
      using eq mixed [of "nat (- sint b)" "nat (sint a)"] by (simp add: FormatInt_def)
  next
    assume "\<not> sint a < 0" "\<not> sint b < 0"
    then show ?thesis
      using eq FormatUint_inj [of "nat (sint a)" "nat (sint b)"]
      by (simp add: FormatInt_def)
  qed
  then show ?thesis
    by (simp add: signed_word_eqI)
qed

lemma namespace_key_inj:
  "s \<in> set stateDBKeys \<Longrightarrow> s' \<in> set stateDBKeys \<Longrightarrow>
   s @ FormatInt c = s' @ FormatInt c' \<longleftrightarrow> s = s' \<and> c = c'"
  by (auto simp: stateDBKeys_def kValidators_def kConsensusParams_def kABCIResponses_def
      dest: FormatInt_inj)

subsection \<open>Batches\<close>

lemma db_Write_no_failure:
  "fail_ss_write w = [] \<Longrightarrow> fst (db_Write b w) = None \<and> fail_ss_write (snd (db_Write b w)) = []"
  by (simp add: db_Write_def log_event_def Let_def)

lemma height_loop_no_failure:
  "fail_ss_write w = [] \<Longrightarrow>
   \<exists>b' w'. height_loop s c r b sz w = (Inr b', w') \<and> fail_ss_write w' = []"
proof (induction s c r b sz w rule: height_loop.induct)
  case (1 s c r b sz w)
  let ?d = "Delete (s @ FormatInt c)"
  show ?case
  proof (cases "c <s r")
    case False
    then show ?thesis
      using "1.prems" by (simp add: height_loop.simps [of s c r b sz w])
  next
    case True
    show ?thesis
    proof (cases "(sz + 1) mod batchMaxSize = 0 \<and> 0 < sz + 1")
      case flush: True
      obtain r1 w1 where wr: "(r1, w1) = db_Write (b @ [?d]) w"
        by (cases "db_Write (b @ [?d]) w") simp
      have r1: "r1 = None" and f1: "fail_ss_write w1 = []"
        using db_Write_no_failure [OF "1.prems", of "b @ [?d]"] wr [symmetric] by simp_all
      from "1.IH"(1) [OF True refl refl flush wr r1 f1]
      show ?thesis
        using True flush wr [symmetric] r1
        by (simp add: height_loop.simps [of s c r b sz w] Let_def)
    next
      case noflush: False
      have step: "height_loop s c r b sz w = height_loop s (c + 1) r (b @ [?d]) (sz + 1) w"
        by (simp only: height_loop.simps [of s c r b sz w] Let_def True noflush if_True if_False)
      from "1.IH"(2) [OF True refl refl noflush "1.prems"]
      show ?thesis
        by (simp only: step)
    qed
  qed
qed

lemma namespace_body_no_failure:
  assumes "fail_ss_write w = []"
  shows "fst (namespace_body st cur mn fl i s w) = None"
proof -
  let ?r = "retain_height s cur mn fl"
  let ?w2 = "Println (FormatInt st @ '' '' @ FormatInt cur @ '' '' @ FormatInt ?r)
               (Println (FormatUint i @ '' '' @ s) w)"
  have "fail_ss_write ?w2 = []"
    using assms by (simp add: Println_def)
  from height_loop_no_failure [OF this, of s st ?r "[]" 0]
  obtain b' w' where hl: "height_loop s st ?r [] 0 ?w2 = (Inr b', w')" and f: "fail_ss_write w' = []"
    by blast
  show ?thesis
    using hl db_Write_no_failure [OF f, of b'] by (simp add: namespace_body_def Let_def)
qed

text \<open>
  C4. In a namespace whose pruning returns no error, with \<open>N\<close> candidate heights
  (\<open>N\<close> is the retention height minus the start height, or 0 when that is negative), the
  calls of \<^verbatim>\<open>db.Write\<close> are \<open>N div 1000\<close> commits inside the height loop, each of a batch
  of exactly 1000 operations (the batch restarts empty after each commit), followed by
  one final flush of the \<open>N mod 1000\<close> operations left, also when none is left.
\<close>

theorem C4_batch_commits:
  "fst (namespace_body st cur mn fl i s w) = None \<Longrightarrow>
   \<exists>mid final.
     trace (snd (namespace_body st cur mn fl i s w)) = trace w @ map Write mid @ [Write final] \<and>
     length mid = nat (sint (retain_height s cur mn fl) - sint st) div 1000 \<and>
     (\<forall>x\<in>set mid. length x = 1000) \<and>
     length final = nat (sint (retain_height s cur mn fl) - sint st) mod 1000"
  using namespace_body_ok [of st cur mn fl i s w] by blast

theorem C4_batch_commits_witness:
  "fail_ss_write example_world = [] \<and>
   fst (namespace_body 1 2503 1 2 0 kValidators example_world) = None \<and>
   (\<exists>mid final.
     trace (snd (namespace_body 1 2503 1 2 0 kValidators example_world))
       = trace example_world @ map Write mid @ [Write final] \<and>
     length mid = 2 \<and> (\<forall>x\<in>set mid. length x = 1000) \<and> length final = 500)"
proof -
  have f: "fail_ss_write example_world = []"
    by (simp add: example_world_def)
  have ok: "fst (namespace_body 1 2503 1 2 0 kValidators example_world) = None"
    by (rule namespace_body_no_failure [OF f])
  have n: "retain_height kValidators 2503 1 2 = 2501"
    by (simp add: retain_height_def kValidators_def kABCIResponses_def)
  show ?thesis
    using f ok C4_batch_commits [OF ok] by (simp add: n)
qed

text \<open>
  C8. A namespace whose retention height is below the start height deletes nothing and
  reports no error: its only call on the store is the final flush of an empty batch, the
  content of the store and every other field of the world stay as they were, and the
  loop goes on with the next namespace.
\<close>

theorem C8_nothing_to_prune:
  "retain_height s cur mn fl <s st \<Longrightarrow>
   namespace_body st cur mn fl i s w =
     (None, w\<lparr>stdout := stdout w @ [FormatUint i @ '' '' @ s,
                 FormatInt st @ '' '' @ FormatInt cur @ '' ''
                   @ FormatInt (retain_height s cur mn fl)],
               trace := trace w @ [Write []]\<rparr>) \<and>
   namespace_loop st cur mn fl i (s # ss) w =
     namespace_loop st cur mn fl (Suc i) ss (snd (namespace_body st cur mn fl i s w))"
proof -
  assume lt: "retain_height s cur mn fl <s st"
  have no: "\<not> st <s retain_height s cur mn fl"
    using lt by (simp add: word_sless_alt)
  have body: "namespace_body st cur mn fl i s w =
     (None, w\<lparr>stdout := stdout w @ [FormatUint i @ '' '' @ s,
                 FormatInt st @ '' '' @ FormatInt cur @ '' ''
                   @ FormatInt (retain_height s cur mn fl)],
               trace := trace w @ [Write []]\<rparr>)"
    using no
    by (simp add: namespace_body_def Let_def height_loop.simps [of s st] db_Write_def
        Println_def log_event_def)
  show ?thesis
    by (simp add: body)
qed

theorem C8_nothing_to_prune_witness:
  "retain_height kABCIResponses 5 9 2 <s (1 :: int64) \<and>
   fst (namespace_body 1 5 9 2 2 kABCIResponses example_world) = None \<and>
   state_kv (snd (namespace_body 1 5 9 2 2 kABCIResponses example_world))
     = state_kv example_world \<and>
   trace (snd (namespace_body 1 5 9 2 2 kABCIResponses example_world))
     = trace example_world @ [Write []]"
proof -
  have lt: "retain_height kABCIResponses 5 9 2 <s (1 :: int64)"
    by (simp add: retain_height_def word_sless_alt)
  show ?thesis
    using lt C8_nothing_to_prune [OF lt, of 2 example_world "[]"] by simp
qed

subsection \<open>The state store after a successful run\<close>

text \<open>
  C1. When \<^verbatim>\<open>pruneStateStore\<close> returns \<^verbatim>\<open>nil\<close>, the state store has lost exactly the keys
  \<open>prefix @ FormatInt c\<close> with \<open>startHeight \<le> c < retain_height\<close> (signed), where the
  retention height is \<open>currentHeight - minHeight\<close> for the prefix of the ABCI responses and
  \<open>currentHeight - fullHeight\<close> for the other two prefixes, both differences taken on
  \<^verbatim>\<open>int64\<close>; every other key keeps its value. Since the keys of different heights and
  namespaces are different strings, a namespace key of a height outside the range is
  among those that keep their value.
\<close>

theorem C1_state_keys_pruned:
  assumes ok: "fst (pruneStateStore w st cur mn fl) = None"
  shows "(\<forall>k. state_kv (snd (pruneStateStore w st cur mn fl)) k =
            (if (\<exists>c. st \<le>s c \<and> c <s cur - fl \<and> k = kValidators @ FormatInt c) \<or>
                (\<exists>c. st \<le>s c \<and> c <s cur - fl \<and> k = kConsensusParams @ FormatInt c) \<or>
                (\<exists>c. st \<le>s c \<and> c <s cur - mn \<and> k = kABCIResponses @ FormatInt c)
             then None else state_kv w k)) \<and>
         (\<forall>s\<in>set stateDBKeys. \<forall>c.
            state_kv (snd (pruneStateStore w st cur mn fl)) (s @ FormatInt c) =
              (if st \<le>s c \<and> c <s retain_height s cur mn fl then None
               else state_kv w (s @ FormatInt c)))"
proof -
  let ?w2 = "Println ''[!] Pruning State Store ...'' (log_event (Open StateDB) w)"
  let ?w' = "snd (pruneStateStore w st cur mn fl)"
  obtain rl w3 where nl: "namespace_loop st cur mn fl 0 stateDBKeys ?w2 = (rl, w3)"
    by (cases "namespace_loop st cur mn fl 0 stateDBKeys ?w2")
  have opened: "fail_ss_open w = None"
    using ok by (cases "fail_ss_open w") (simp_all add: pruneStateStore_def OpenFile_def)
  have rl: "rl = None"
    using ok opened nl
    by (cases rl) (simp_all add: pruneStateStore_def OpenFile_def Let_def)
  have kv: "state_kv ?w' = state_kv w3"
    using opened nl rl
    by (simp add: pruneStateStore_def OpenFile_def Let_def db_CompactRange_def log_event_def
        Println_def)
  have kv2: "state_kv ?w2 = state_kv w"
    by (simp add: Println_def log_event_def)
  have loop: "state_kv w3 k =
     (if \<exists>s\<in>set stateDBKeys. \<exists>c. st \<le>s c \<and> c <s retain_height s cur mn fl \<and> k = s @ FormatInt c
      then None else state_kv w k)" for k
  proof -
    have okl: "fst (namespace_loop st cur mn fl 0 stateDBKeys ?w2) = None"
      using nl rl by simp
    have w3: "snd (namespace_loop st cur mn fl 0 stateDBKeys ?w2) = w3"
      using nl by simp
    show ?thesis
      using namespace_loop_kv [OF okl, of k] by (simp only: w3 kv2)
  qed
  have names: "kValidators \<noteq> kABCIResponses" "kConsensusParams \<noteq> kABCIResponses"
    by (simp_all add: kValidators_def kConsensusParams_def kABCIResponses_def)
  have first: "state_kv ?w' k =
            (if (\<exists>c. st \<le>s c \<and> c <s cur - fl \<and> k = kValidators @ FormatInt c) \<or>
                (\<exists>c. st \<le>s c \<and> c <s cur - fl \<and> k = kConsensusParams @ FormatInt c) \<or>
                (\<exists>c. st \<le>s c \<and> c <s cur - mn \<and> k = kABCIResponses @ FormatInt c)
             then None else state_kv w k)" for k
    unfolding kv loop by (simp add: stateDBKeys_def retain_height_def names)
  have second: "state_kv ?w' (s @ FormatInt c) =
              (if st \<le>s c \<and> c <s retain_height s cur mn fl then None
               else state_kv w (s @ FormatInt c))" if s: "s \<in> set stateDBKeys" for s c
  proof -
    have "(\<exists>s'\<in>set stateDBKeys. \<exists>c'. st \<le>s c' \<and> c' <s retain_height s' cur mn fl \<and>
             s @ FormatInt c = s' @ FormatInt c')
          \<longleftrightarrow> st \<le>s c \<and> c <s retain_height s cur mn fl"
    proof
      assume "\<exists>s'\<in>set stateDBKeys. \<exists>c'. st \<le>s c' \<and> c' <s retain_height s' cur mn fl \<and>
             s @ FormatInt c = s' @ FormatInt c'"
      then obtain s' c' where s': "s' \<in> set stateDBKeys"
        and r: "st \<le>s c'" "c' <s retain_height s' cur mn fl"
        and e: "s @ FormatInt c = s' @ FormatInt c'"
        by blast
      have "s = s' \<and> c = c'"
        using namespace_key_inj [OF s s', of c c'] e by simp
      then show "st \<le>s c \<and> c <s retain_height s cur mn fl"
        using r by simp
    next
      assume "st \<le>s c \<and> c <s retain_height s cur mn fl"
      then show "\<exists>s'\<in>set stateDBKeys. \<exists>c'. st \<le>s c' \<and> c' <s retain_height s' cur mn fl \<and>
             s @ FormatInt c = s' @ FormatInt c'"
        using s by (intro bexI [of _ s] exI [of _ c]) simp_all
    qed
    then show ?thesis
      unfolding kv loop by (simp only:)
  qed
  show ?thesis
    by (intro conjI allI ballI) (rule first, rule second)
qed

theorem C1_state_keys_pruned_witness:
  "fst (pruneStateStore example_world 1 5 1 2) = None \<and>
   state_kv (snd (pruneStateStore example_world 1 5 1 2)) ''validatorsKey:1'' = None \<and>
   state_kv (snd (pruneStateStore example_world 1 5 1 2)) ''validatorsKey:3'' = Some ''v3'' \<and>
   state_kv (snd (pruneStateStore example_world 1 5 1 2)) ''abciResponsesKey:3'' = None \<and>
   state_kv (snd (pruneStateStore example_world 1 5 1 2)) ''abciResponsesKey:4'' = Some ''a4''"
proof -
  have ok: "fst (pruneStateStore example_world 1 5 1 2) = None"
    by code_simp
  have fmt: "FormatInt 1 = ''1''" "FormatInt 3 = ''3''" "FormatInt 4 = ''4''"
    by (simp_all add: FormatInt_def FormatUint.simps digit_char_def)
  have mem: "kValidators \<in> set stateDBKeys" "kABCIResponses \<in> set stateDBKeys"
    by (simp_all add: stateDBKeys_def)
  have names: "kValidators \<noteq> kABCIResponses"
    by (simp add: kValidators_def kABCIResponses_def)
  have per: "state_kv (snd (pruneStateStore example_world 1 5 1 2)) (s @ FormatInt c) =
        (if 1 \<le>s c \<and> c <s retain_height s 5 1 2 then None
         else state_kv example_world (s @ FormatInt c))" if "s \<in> set stateDBKeys" for s c
    using C1_state_keys_pruned [OF ok] that by blast
  have v1: "state_kv (snd (pruneStateStore example_world 1 5 1 2)) (kValidators @ FormatInt 1) = None"
    using per [OF mem(1), of 1]
    by (simp add: retain_height_def names word_sle_eq word_sless_alt)
  have v3: "state_kv (snd (pruneStateStore example_world 1 5 1 2)) (kValidators @ FormatInt 3)
      = state_kv example_world (kValidators @ FormatInt 3)"
    using per [OF mem(1), of 3]
    by (simp add: retain_height_def names word_sle_eq word_sless_alt)
  have a3: "state_kv (snd (pruneStateStore example_world 1 5 1 2)) (kABCIResponses @ FormatInt 3) = None"
    using per [OF mem(2), of 3]
    by (simp add: retain_height_def word_sle_eq word_sless_alt)
  have a4: "state_kv (snd (pruneStateStore example_world 1 5 1 2)) (kABCIResponses @ FormatInt 4)
      = state_kv example_world (kABCIResponses @ FormatInt 4)"
    using per [OF mem(2), of 4]
    by (simp add: retain_height_def word_sle_eq word_sless_alt)
  show ?thesis
    using ok v1 v3 a3 a4
    by (simp add: fmt kValidators_def kABCIResponses_def example_world_def)
qed

subsection \<open>Block pruning and the order of the calls\<close>


lemma pruneBlockStoreAndGetHeights_opened:
  assumes opened: "fail_bs_open w = None"
  shows "case fst (bs_PruneBlocks (blocks_height w - fullHeight) w) of
           Inl e \<Rightarrow>
             fst (pruneBlockStoreAndGetHeights w fullHeight) = Inl e \<and>
             snd (pruneBlockStoreAndGetHeights w fullHeight)
               = (snd (bs_PruneBlocks (blocks_height w - fullHeight) w))
                   \<lparr>trace := trace w @ [Open BlockStoreDB,
                                          PruneBlocks (blocks_height w - fullHeight),
                                          Close BlockStoreDB],
                    stdout := stdout w @ [''[!] Pruning Block Store ...'']\<rparr>
         | Inr n \<Rightarrow>
             fst (pruneBlockStoreAndGetHeights w fullHeight)
               = (case fail_bs_close w of
                    Some e \<Rightarrow> Inl e
                  | None \<Rightarrow> Inr (blocks_base w, blocks_height w)) \<and>
             snd (pruneBlockStoreAndGetHeights w fullHeight)
               = (snd (bs_PruneBlocks (blocks_height w - fullHeight) w))
                   \<lparr>trace := trace w @ [Open BlockStoreDB,
                                          PruneBlocks (blocks_height w - fullHeight),
                                          Close BlockStoreDB, Close BlockStoreDB],
                    stdout := stdout w @ [''[!] Pruning Block Store ...'',
                                ''[!] Pruned Block Store ... '' @ FormatUint (unat n)]\<rparr>"
  using opened
  by (simp add: pruneBlockStoreAndGetHeights_def OpenFile_def bs_PruneBlocks_def Let_def
      Println_def log_event_def split: option.split)

text \<open>
  C10, as amended. When the block store opens, \<^verbatim>\<open>pruneBlockStoreAndGetHeights\<close> makes
  exactly one call of \<^verbatim>\<open>PruneBlocks\<close>, with the cutoff \<open>Height() - fullHeight\<close> computed from
  the heights the store reports before that call, and it leaves the store as that call
  left it: the world it returns is the world the call returns, with the calls logged and
  the lines printed. The count the call returns is printed on the line
  \<^verbatim>\<open>[!] Pruned Block Store ...\<close>; it is not the result of the function, which returns the
  base and the height read before pruning, or the error of the call or of the close.
\<close>

theorem C10_block_pruning:
  assumes opened: "fail_bs_open w = None"
  shows "case fst (bs_PruneBlocks (blocks_height w - fullHeight) w) of
           Inl e \<Rightarrow>
             fst (pruneBlockStoreAndGetHeights w fullHeight) = Inl e \<and>
             snd (pruneBlockStoreAndGetHeights w fullHeight)
               = (snd (bs_PruneBlocks (blocks_height w - fullHeight) w))
                   \<lparr>trace := trace w @ [Open BlockStoreDB,
                                          PruneBlocks (blocks_height w - fullHeight),
                                          Close BlockStoreDB],
                    stdout := stdout w @ [''[!] Pruning Block Store ...'']\<rparr>
         | Inr n \<Rightarrow>
             fst (pruneBlockStoreAndGetHeights w fullHeight)
               = (case fail_bs_close w of
                    Some e \<Rightarrow> Inl e
                  | None \<Rightarrow> Inr (blocks_base w, blocks_height w)) \<and>
             snd (pruneBlockStoreAndGetHeights w fullHeight)
               = (snd (bs_PruneBlocks (blocks_height w - fullHeight) w))
                   \<lparr>trace := trace w @ [Open BlockStoreDB,
                                          PruneBlocks (blocks_height w - fullHeight),
                                          Close BlockStoreDB, Close BlockStoreDB],
                    stdout := stdout w @ [''[!] Pruning Block Store ...'',
                                ''[!] Pruned Block Store ... '' @ FormatUint (unat n)]\<rparr>"
  by (rule pruneBlockStoreAndGetHeights_opened [OF opened])

theorem C10_block_pruning_witness:
  "fail_bs_open example_world = None \<and>
   fst (bs_PruneBlocks 3 example_world) = Inr 2 \<and>
   fst (pruneBlockStoreAndGetHeights example_world 2) = Inr (1, 5) \<and>
   blocks_base (snd (pruneBlockStoreAndGetHeights example_world 2)) = 3 \<and>
   trace (snd (pruneBlockStoreAndGetHeights example_world 2))
     = [Open BlockStoreDB, PruneBlocks 3, Close BlockStoreDB, Close BlockStoreDB] \<and>
   stdout (snd (pruneBlockStoreAndGetHeights example_world 2))
     = [''[!] Pruning Block Store ...'', ''[!] Pruned Block Store ... 2'']"
proof -
  have opened: "fail_bs_open example_world = None"
    by (simp add: example_world_def)
  have w: "blocks_height example_world = 5" "blocks_base example_world = 1"
    "fail_bs_close example_world = None" "trace example_world = []" "stdout example_world = []"
    by (simp_all add: example_world_def)
  have answer: "fst (bs_PruneBlocks 3 example_world) = Inr 2"
    by (simp add: bs_PruneBlocks_def example_world_def log_event_def word_sle_eq word_sless_alt)
  have base: "blocks_base (snd (bs_PruneBlocks 3 example_world)) = 3"
    by (simp add: bs_PruneBlocks_def example_world_def log_event_def word_sle_eq word_sless_alt)
  have fmt: "FormatUint 2 = ''2''"
    by (simp add: FormatUint.simps digit_char_def)
  show ?thesis
    using opened C10_block_pruning [OF opened, of 2]
    by (simp add: w answer base fmt)
qed

text \<open>
  C10 as the specification states it fails on the result: on the small world the call of
  \<^verbatim>\<open>PruneBlocks\<close> returns the count 2 and the function returns the heights 1 and 5.
\<close>

theorem C10_result_is_heights_counterexample:
  "fst (bs_PruneBlocks 3 (Println ''[!] Pruning Block Store ...''
          (log_event (Open BlockStoreDB) example_world))) = Inr 2 \<and>
   fst (pruneBlockStoreAndGetHeights example_world 2) = Inr (1, 5) \<and>
   (2 :: uint64) \<notin> {1, 5}"
  by code_simp

























subsection \<open>A failed compaction of the block store\<close>

text \<open>
  C2. The claim fails on the block store. In a world where \<^verbatim>\<open>CompactRange\<close> on
  \<^verbatim>\<open>blockstore.db\<close> fails and the close succeeds, the deferred function overwrites the
  returned error with the \<^verbatim>\<open>nil\<close> of \<^verbatim>\<open>db.Close()\<close>: \<^verbatim>\<open>compactBlockStore\<close> returns \<^verbatim>\<open>nil\<close>.
  The same failure on \<^verbatim>\<open>state.db\<close> is returned unchanged by \<^verbatim>\<open>pruneStateStore\<close>.
\<close>

theorem C2_block_compaction_error_lost:
  "fst (compactBlockStore
          (example_world\<lparr>fail_cb_compact := Some (ErrStore ''compaction failed'')\<rparr>))
     = Return None \<and>
   trace (snd (compactBlockStore
          (example_world\<lparr>fail_cb_compact := Some (ErrStore ''compaction failed'')\<rparr>)))
     = [Open BlockStoreDB, CompactRange BlockStoreDB, Close BlockStoreDB] \<and>
   fst (pruneStateStore
          (example_world\<lparr>fail_ss_compact := Some (ErrStore ''compaction failed'')\<rparr>) 1 5 1 2)
     = Some (ErrStore ''compaction failed'')"
  by code_simp

text \<open>
  C9. The claim fails at the stage that compacts the block store. In the same world the
  whole command returns \<^verbatim>\<open>nil\<close>, and the state store is opened, pruned and compacted after
  the compaction of the block store has failed.
\<close>

theorem C9_later_stages_run_after_failed_compaction:
  "fst (runStartPruneCmd example_cmd (Some (ErrStore ''connection refused''))
          (example_world\<lparr>fail_cb_compact := Some (ErrStore ''compaction failed'')\<rparr>))
     = Return None \<and>
   trace (snd (runStartPruneCmd example_cmd (Some (ErrStore ''connection refused''))
          (example_world\<lparr>fail_cb_compact := Some (ErrStore ''compaction failed'')\<rparr>)))
     = [Open BlockStoreDB, PruneBlocks 3, Close BlockStoreDB, Close BlockStoreDB,
        Open BlockStoreDB, CompactRange BlockStoreDB, Close BlockStoreDB,
        Open StateDB,
        Write [Delete ''validatorsKey:1'', Delete ''validatorsKey:2''],
        Write [Delete ''consensusParamsKey:1'', Delete ''consensusParamsKey:2''],
        Write [Delete ''abciResponsesKey:1'', Delete ''abciResponsesKey:2'',
               Delete ''abciResponsesKey:3''],
        CompactRange StateDB, Close StateDB]"
  by code_simp

end
